theory Spec2Isabelle
  imports Main "HOL-Library.Sublist"
begin

section \<open>JavaScript strings\<close>

text \<open>
  The widget of \<^verbatim>\<open>nexchat/public/js/nexchat.js\<close> works on JavaScript strings. A string
  is modelled as a \<^typ>\<open>string\<close>, one \<^typ>\<open>char\<close> per UTF-16 code unit, for the code
  units below 256 (ASCII and Latin-1). On that range the built-in string operations the
  widget calls are written out below as ECMAScript defines them.
\<close>

text \<open>\<^verbatim>\<open>text.includes(needle)\<close>: the needle occurs as a contiguous run; the empty
  needle always does.\<close>

fun str_includes :: "string \<Rightarrow> string \<Rightarrow> bool" where
  "str_includes [] needle = (needle = [])"
| "str_includes (c # cs) needle = (prefix needle (c # cs) \<or> str_includes cs needle)"

text \<open>White space and line terminators of ECMAScript below code unit 256: TAB, LF, VT,
  FF, CR, SPACE and NO-BREAK SPACE. These are what \<^verbatim>\<open>trim()\<close> strips and what
  \<^verbatim>\<open>\s\<close> matches.\<close>

definition isWhiteSpace :: "char \<Rightarrow> bool" where
  "isWhiteSpace c =
     (c = CHR 0x09 \<or> c = CHR 0x0A \<or> c = CHR 0x0B \<or> c = CHR 0x0C \<or> c = CHR 0x0D \<or>
      c = CHR 0x20 \<or> c = CHR 0xA0)"

definition trim :: "string \<Rightarrow> string" where
  "trim s = rev (dropWhile isWhiteSpace (rev (dropWhile isWhiteSpace s)))"

text \<open>\<^verbatim>\<open>\d\<close> of a regular expression: the ten ASCII digits.\<close>

definition isDigit :: "char \<Rightarrow> bool" where
  "isDigit c = (c \<in> set ''0123456789'')"

text \<open>The line terminators that \<^verbatim>\<open>.\<close> of a regular expression refuses (LF and CR
  on this range).\<close>

definition isLineTerminator :: "char \<Rightarrow> bool" where
  "isLineTerminator c = (c = CHR 0x0A \<or> c = CHR 0x0D)"

text \<open>\<^verbatim>\<open>toLowerCase()\<close>: the letters A-Z and the Latin-1 capitals (0xC0-0xDE but the
  multiplication sign 0xD7) move up by 32; every other code unit stays.\<close>

definition toLowerChar :: "char \<Rightarrow> char" where
  "toLowerChar c =
     (let n = (of_char c :: nat) in
      if (65 \<le> n \<and> n \<le> 90) \<or> (192 \<le> n \<and> n \<le> 222 \<and> n \<noteq> 215)
      then char_of (n + 32) else c)"

definition toLowerCase :: "string \<Rightarrow> string" where
  "toLowerCase s = map toLowerChar s"


section \<open>Escaping: \<^verbatim>\<open>escapeHtml\<close>\<close>

text \<open>
  \<^verbatim>\<open>escapeHtml(text)\<close> stores the text as the \<^verbatim>\<open>textContent\<close> of a fresh
  \<^verbatim>\<open>div\<close> and reads its \<^verbatim>\<open>innerHTML\<close> back. The browser serialises a text node
  replacing \<^verbatim>\<open>&\<close>, NO-BREAK SPACE, \<^verbatim>\<open><\<close> and \<^verbatim>\<open>>\<close> by their entities and
  leaving every other character (quotes included) as it is.
\<close>

definition escapeChar :: "char \<Rightarrow> string" where
  \<open>escapeChar c =
     (if c = CHR ''&'' then ''&amp;''
      else if c = CHR 0xA0 then ''&nbsp;''
      else if c = CHR ''<'' then ''&lt;''
      else if c = CHR ''>'' then ''&gt;''
      else [c])\<close>

definition escapeHtml :: "string \<Rightarrow> string" where
  "escapeHtml text = concat (map escapeChar text)"


section \<open>Role-selection markup: \<^verbatim>\<open>formatRoleSelectionMessage\<close>\<close>

text \<open>
  \<^verbatim>\<open>str.replace(/re/g, by)\<close> scans from the left; at a position where the expression
  matches, the match is replaced and the scan goes on behind it, otherwise the character
  is kept. A matcher returns the replacement and the number of characters matched (at
  least one for every expression used here); the counter skips the matched characters.
\<close>

fun replaceAll :: "(string \<Rightarrow> (string \<times> nat) option) \<Rightarrow> nat \<Rightarrow> string \<Rightarrow> string" where
  "replaceAll m skip [] = []"
| "replaceAll m (Suc skip) (c # cs) = replaceAll m skip cs"
| "replaceAll m 0 (c # cs) =
     (case m (c # cs) of
        Some (by, n) \<Rightarrow> by @ replaceAll m (n - 1) cs
      | None \<Rightarrow> c # replaceAll m 0 cs)"

text \<open>The lazy group \<^verbatim>\<open>(.*?)\<close> followed by a literal: the shortest run of characters
  that are no line terminators after which the literal stands. The result is the group
  and the text behind the literal.\<close>

fun lazyUntil :: "string \<Rightarrow> string \<Rightarrow> (string \<times> string) option" where
  "lazyUntil lit [] = (if lit = [] then Some ([], []) else None)"
| "lazyUntil lit (c # cs) =
     (if prefix lit (c # cs) then Some ([], drop (length lit) (c # cs))
      else if isLineTerminator c then None
      else (case lazyUntil lit cs of
              Some (g, rest) \<Rightarrow> Some (c # g, rest)
            | None \<Rightarrow> None))"

text \<open>The button a backtick-wrapped number followed by a bold label turns into.\<close>

definition roleButton :: "string \<Rightarrow> string \<Rightarrow> string" where
  \<open>roleButton number roleName =
     ''<button class="role-button" data-number="'' @ number @
     ''" onclick="window.nexchat.selectRole('' @ [CHR 0x27] @ number @ [CHR 0x27] @
     '')">'' @ number @ ''</button> <strong>'' @ roleName @ ''</strong>''\<close>

text \<open>\<^verbatim>\<open>/`(\d+)`\s+\*\*(.*?)\*\*/\<close> at the head of a string. The digits and the white
  space are followed by a character of another class, so the greedy runs are the
  maximal ones.\<close>

definition roleButtonMatch :: "string \<Rightarrow> (string \<times> nat) option" where
  \<open>roleButtonMatch s =
     (case s of
        [] \<Rightarrow> None
      | c # r1 \<Rightarrow>
          if c \<noteq> CHR 0x60 then None
          else
            let number = takeWhile isDigit r1; r2 = dropWhile isDigit r1 in
            if number = [] \<or> \<not> prefix [CHR 0x60] r2 then None
            else
              let r3 = drop 1 r2; ws = takeWhile isWhiteSpace r3; r4 = dropWhile isWhiteSpace r3 in
              if ws = [] \<or> \<not> prefix ''**'' r4 then None
              else
                (case lazyUntil ''**'' (drop 2 r4) of
                   None \<Rightarrow> None
                 | Some (roleName, rest) \<Rightarrow>
                     Some (roleButton number roleName,
                           1 + length number + 1 + length ws + 2 + length roleName + 2)))\<close>

text \<open>\<^verbatim>\<open>/\*\*(.*?)\*\*/\<close> replaced by \<^verbatim>\<open><strong>$1</strong>\<close>.\<close>

definition strongMatch :: "string \<Rightarrow> (string \<times> nat) option" where
  \<open>strongMatch s =
     (if prefix ''**'' s then
        (case lazyUntil ''**'' (drop 2 s) of
           None \<Rightarrow> None
         | Some (g, rest) \<Rightarrow> Some (''<strong>'' @ g @ ''</strong>'', 2 + length g + 2))
      else None)\<close>

text \<open>\<^verbatim>\<open>/`(.*?)`/\<close> replaced by \<^verbatim>\<open><code>$1</code>\<close>.\<close>

definition codeMatch :: "string \<Rightarrow> (string \<times> nat) option" where
  \<open>codeMatch s =
     (if prefix [CHR 0x60] s then
        (case lazyUntil [CHR 0x60] (drop 1 s) of
           None \<Rightarrow> None
         | Some (g, rest) \<Rightarrow> Some (''<code>'' @ g @ ''</code>'', 1 + length g + 1))
      else None)\<close>

text \<open>\<^verbatim>\<open>/\n/\<close> replaced by \<^verbatim>\<open><br>\<close>.\<close>

definition brMatch :: "string \<Rightarrow> (string \<times> nat) option" where
  \<open>brMatch s = (if prefix [CHR 0x0A] s then Some (''<br>'', 1) else None)\<close>

text \<open>The fixed action row the template literal appends, with its line breaks and
  indentation. The two emoji of the button labels lie above code unit 255; they stand
  here as their UTF-8 bytes, and nothing below reads them.\<close>

definition actionButtons :: string where
  \<open>actionButtons =
     [CHR 0x0A] @ replicate 12 CHR '' '' @ ''<div class="role-action-buttons">'' @
     [CHR 0x0A] @ replicate 16 CHR '' '' @
       ''<button class="assign-all-button" onclick="window.nexchat.assignAllRoles()" title="Assign ALL available roles at once">'' @
     [CHR 0x0A] @ replicate 20 CHR '' '' @ [CHR 0xF0, CHR 0x9F, CHR 0x9A, CHR 0x80] @ '' Assign ALL Roles'' @
     [CHR 0x0A] @ replicate 16 CHR '' '' @ ''</button>'' @
     [CHR 0x0A] @ replicate 16 CHR '' '' @
       ''<button class="cancel-button" onclick="window.nexchat.selectRole('cancel')" title="Cancel role assignment">'' @
     [CHR 0x0A] @ replicate 20 CHR '' '' @ [CHR 0xE2, CHR 0x9D, CHR 0x8C] @ '' Cancel'' @
     [CHR 0x0A] @ replicate 16 CHR '' '' @ ''</button>'' @
     [CHR 0x0A] @ replicate 12 CHR '' '' @ ''</div>'' @
     [CHR 0x0A] @ replicate 8 CHR '' ''\<close>

definition formatRoleSelectionMessage :: "string \<Rightarrow> string" where
  \<open>formatRoleSelectionMessage text =
     (let formattedText = replaceAll roleButtonMatch 0 text;
          formattedText = replaceAll strongMatch 0 formattedText;
          formattedText = replaceAll codeMatch 0 formattedText;
          formattedText = replaceAll brMatch 0 formattedText
      in ''<div class="role-selection-content">'' @ formattedText @ actionButtons @ ''</div>'')\<close>


section \<open>Classifying and rendering a message: \<^verbatim>\<open>addMessage\<close>\<close>

definition isRoleSelection :: "string \<Rightarrow> bool" where
  \<open>isRoleSelection text =
     (str_includes text ''Select Role(s) for'' \<and> str_includes text [CHR 0x60])\<close>

definition isHTMLResponse :: "string \<Rightarrow> bool" where
  \<open>isHTMLResponse text =
     (str_includes text ''<div class="nexchat-'' \<or>
      str_includes text ''<div class="nexchat-options-container">'' \<or>
      str_includes text ''<div class="nexchat-field-container">'')\<close>

text \<open>The content of the new message element: the three branches of \<^verbatim>\<open>addMessage\<close>,
  in the order of the source. The sender is the string the caller passes.\<close>

definition messageContent :: "string \<Rightarrow> string \<Rightarrow> string" where
  \<open>messageContent text sender =
     (if isRoleSelection text \<and> sender = ''bot'' then formatRoleSelectionMessage text
      else if isHTMLResponse text \<and> sender = ''bot'' then text
      else ''<p>'' @ escapeHtml text @ ''</p>'')\<close>

text \<open>The branch taken, under the names of the three visual forms.\<close>

datatype render_kind = plain | roleSelection | rawHtml

definition renderKind :: "string \<Rightarrow> string \<Rightarrow> render_kind" where
  \<open>renderKind text sender =
     (if isRoleSelection text \<and> sender = ''bot'' then roleSelection
      else if isHTMLResponse text \<and> sender = ''bot'' then rawHtml
      else plain)\<close>


section \<open>The message list and one submission: \<^verbatim>\<open>handleUserInput\<close>, \<^verbatim>\<open>sendToBackend\<close>\<close>

text \<open>
  The part of the page that sending a message reads and writes: the flag
  \<^verbatim>\<open>this.isTyping\<close>, the input field and the send button, the typing indicator and the
  children of \<^verbatim>\<open>#nexchat-body\<close>. Two more fields record what leaves the widget: the
  handler set-up calls \<^verbatim>\<open>addMessage\<close> makes, and the remote calls handed to
  \<^verbatim>\<open>frappe.call\<close> with the number of them not yet answered. Focus, scrolling and the
  fade-in timer change none of these fields and are left out.
\<close>

record message =
  messageClass :: string
  roleSelectionClass :: bool
  htmlResponseClass :: bool
  startsTransparent :: bool
  content :: string

datatype handler_setup = addRoleButtonHandlers | addOptionHandlers

record chat =
  isTyping :: bool
  inputVal :: string
  inputDisabled :: bool
  sendDisabled :: bool
  typingShown :: bool
  messages :: "message list"
  handlerSetups :: "handler_setup list"
  calls :: "string list"
  outstanding :: nat

definition addMessage :: "string \<Rightarrow> string \<Rightarrow> bool \<Rightarrow> chat \<Rightarrow> chat" where
  \<open>addMessage text sender animate st =
     st\<lparr>messages := messages st @
           [\<lparr>messageClass = (if sender = ''user'' then ''user'' else ''bot''),
             roleSelectionClass = isRoleSelection text,
             htmlResponseClass = isHTMLResponse text,
             startsTransparent = animate,
             content = messageContent text sender\<rparr>],
        handlerSetups := handlerSetups st @
           (if isRoleSelection text then [addRoleButtonHandlers] else []) @
           (if isHTMLResponse text then [addOptionHandlers] else [])\<rparr>\<close>

definition showTyping :: "chat \<Rightarrow> chat" where
  "showTyping st = st\<lparr>isTyping := True, typingShown := True\<rparr>"

definition hideTyping :: "chat \<Rightarrow> chat" where
  "hideTyping st = st\<lparr>isTyping := False, typingShown := False\<rparr>"

text \<open>\<^verbatim>\<open>sendToBackend(message)\<close> hands one call to \<^verbatim>\<open>frappe.call\<close> and returns a
  promise. Issuing the call is the state change; the promise is settled later by one of
  the two callbacks.\<close>

definition sendToBackend :: "string \<Rightarrow> chat \<Rightarrow> chat" where
  "sendToBackend message st =
     st\<lparr>calls := calls st @ [message], outstanding := Suc (outstanding st)\<rparr>"

text \<open>What \<^verbatim>\<open>frappe.call\<close> reports: the success callback with \<^verbatim>\<open>r.message\<close> (absent,
  or an object with an optional \<^verbatim>\<open>response\<close> string), or the error callback with
  \<^verbatim>\<open>r.responseJSON\<close> (absent, or an object with an optional \<^verbatim>\<open>message\<close> string).\<close>

record payload =
  response :: "string option"

record failure_body =
  message :: "string option"

datatype frappe_reply = callback "payload option" | error "failure_body option"

datatype promise_outcome = resolved payload | rejected string

text \<open>The two callbacks of \<^verbatim>\<open>sendToBackend\<close>. \<^verbatim>\<open>new Error(undefined)\<close> has the empty
  message.\<close>

fun settle :: "frappe_reply \<Rightarrow> promise_outcome" where
  \<open>settle (callback r_message) =
     (case r_message of
        Some m \<Rightarrow> resolved m
      | None \<Rightarrow> rejected ''No response from server'')\<close>
| \<open>settle (error responseJSON) =
     rejected
       (case responseJSON of
          Some body \<Rightarrow> (case message body of Some text \<Rightarrow> text | None \<Rightarrow> [])
        | None \<Rightarrow> ''Server error'')\<close>

definition errorProcessingText :: string where
  \<open>errorProcessingText =
     ''Sorry, I encountered an error processing your request. Please try again.''\<close>

definition troubleConnectingText :: string where
  \<open>troubleConnectingText =
     ''I apologize, but I'm having trouble connecting right now. Please check your connection and try again.''\<close>

text \<open>The three continuations chained on the promise. An empty \<^verbatim>\<open>response\<close> string is
  falsy, as a missing one is.\<close>

definition thenHandler :: "payload \<Rightarrow> chat \<Rightarrow> chat" where
  \<open>thenHandler r st =
     (let st = hideTyping st in
      case response r of
        Some text \<Rightarrow>
          if text \<noteq> [] then addMessage text ''bot'' True st
          else addMessage errorProcessingText ''bot'' True st
      | None \<Rightarrow> addMessage errorProcessingText ''bot'' True st)\<close>

definition catchHandler :: "string \<Rightarrow> chat \<Rightarrow> chat" where
  \<open>catchHandler err st = addMessage troubleConnectingText ''bot'' True (hideTyping st)\<close>

definition finallyHandler :: "chat \<Rightarrow> chat" where
  "finallyHandler st = st\<lparr>inputDisabled := False, sendDisabled := False\<rparr>"

definition settled :: "promise_outcome \<Rightarrow> chat \<Rightarrow> chat" where
  "settled outcome st =
     finallyHandler
       (case outcome of
          resolved r \<Rightarrow> thenHandler r st
        | rejected err \<Rightarrow> catchHandler err st)"

definition handleUserInput :: "chat \<Rightarrow> chat" where
  \<open>handleUserInput st =
     (let userInput = trim (inputVal st) in
      if userInput = [] \<or> isTyping st then st
      else
        let st = addMessage userInput ''user'' True st;
            st = st\<lparr>inputVal := []\<rparr>;
            st = st\<lparr>inputDisabled := True, sendDisabled := True\<rparr>;
            st = showTyping st
        in sendToBackend userInput st)\<close>

text \<open>The transport answers a call that is outstanding; the promise of that call is
  settled and its continuations run.\<close>

definition reply :: "frappe_reply \<Rightarrow> chat \<Rightarrow> chat" where
  "reply r st =
     (if outstanding st = 0 then st
      else settled (settle r) (st\<lparr>outstanding := outstanding st - 1\<rparr>))"

text \<open>The widget as the constructor and \<^verbatim>\<open>createChatWidget\<close> leave it.\<close>

definition newChat :: chat where
  "newChat =
     \<lparr>isTyping = False, inputVal = [], inputDisabled = False, sendDisabled = False,
      typingShown = False, messages = [], handlerSetups = [], calls = [], outstanding = 0\<rparr>"

text \<open>What can happen to the widget between two renders: the input field gets a new
  value (typing, or a handler writing into it), a submission is attempted (send button,
  Enter, or a handler calling \<^verbatim>\<open>handleUserInput\<close>), or the transport answers.\<close>

datatype event = SetInput string | Submit | Reply frappe_reply

fun step :: "event \<Rightarrow> chat \<Rightarrow> chat" where
  "step (SetInput v) st = st\<lparr>inputVal := v\<rparr>"
| "step Submit st = handleUserInput st"
| "step (Reply r) st = reply r st"

fun run :: "event list \<Rightarrow> chat \<Rightarrow> chat" where
  "run [] st = st"
| "run (e # es) st = run es (step e st)"


section \<open>Role buttons: \<^verbatim>\<open>selectRole\<close>\<close>

text \<open>\<^verbatim>\<open>/^\d+$/.test(s)\<close>: one or more digits and nothing else.\<close>

definition allDigits :: "string \<Rightarrow> bool" where
  "allDigits s = (s \<noteq> [] \<and> list_all isDigit s)"

text \<open>\<^verbatim>\<open>selectRole(number)\<close>; the argument is taken as the string it is written into
  the field as.\<close>

definition selectRole :: "string \<Rightarrow> chat \<Rightarrow> chat" where
  \<open>selectRole number st =
     (let currentValue = trim (inputVal st) in
      if currentValue = [] then st\<lparr>inputVal := number\<rparr>
      else if str_includes currentValue '','' \<or> allDigits currentValue
        then st\<lparr>inputVal := currentValue @ '','' @ number\<rparr>
      else st\<lparr>inputVal := number\<rparr>)\<close>

text \<open>
  The two click handlers of a numbered role button. The markup \<^const>\<open>roleButton\<close> gives
  the button the inline handler \<^verbatim>\<open>onclick="window.nexchat.selectRole('n')"\<close>. For the
  same message \<^verbatim>\<open>addMessage\<close> calls \<^verbatim>\<open>addRoleButtonHandlers\<close>, which binds to every
  \<^verbatim>\<open>.role-button\<close> a jQuery handler that reads the number from \<^verbatim>\<open>data-number\<close> and
  calls \<^verbatim>\<open>window.nexchat.selectRole(number)\<close>; its \<^verbatim>\<open>off('click')\<close> takes earlier
  jQuery handlers off, not the inline one.
\<close>

definition inlineOnclick :: "string \<Rightarrow> chat \<Rightarrow> chat" where
  "inlineOnclick number st = selectRole number st"

definition boundClickHandler :: "string \<Rightarrow> chat \<Rightarrow> chat" where
  "boundClickHandler number st = selectRole number st"

text \<open>One click on the button runs the inline handler and then the bound one.\<close>

definition roleButtonClick :: "string \<Rightarrow> chat \<Rightarrow> chat" where
  "roleButtonClick number st = boundClickHandler number (inlineOnclick number st)"


section \<open>Option items: \<^verbatim>\<open>toggleWidget\<close>, \<^verbatim>\<open>filterOptions\<close>, keyboard navigation\<close>

text \<open>
  The part of the page the option handlers read and write: the flag \<^verbatim>\<open>this.isOpen\<close>,
  the class \<^verbatim>\<open>hidden\<close> of the widget panel (the style sheet gives it
  \<^verbatim>\<open>display: none\<close>), the toggle button, the \<^verbatim>\<open>.nexchat-option-item\<close> elements in
  document order and the \<^verbatim>\<open>expanded\<close> class of the collapsible sections. Of an item
  the handlers read the text of its primary and secondary parts, whether \<^verbatim>\<open>hide()\<close>
  has taken it out of the layout, and its class \<^verbatim>\<open>focused\<close>.
\<close>

record option_item =
  primaryText :: string
  secondaryText :: string
  hidden :: bool
  focused :: bool

record option_list =
  isOpen :: bool
  widgetHidden :: bool
  toggleHidden :: bool
  items :: "option_item list"
  sectionsExpanded :: "bool list"

definition toggleWidget :: "option_list \<Rightarrow> option_list" where
  "toggleWidget st =
     (if isOpen st then st\<lparr>widgetHidden := True, toggleHidden := False, isOpen := False\<rparr>
      else st\<lparr>widgetHidden := False, toggleHidden := True, isOpen := True\<rparr>)"

definition filterOptions :: "string \<Rightarrow> option_list \<Rightarrow> option_list" where
  "filterOptions searchValue st =
     (let searchLower = toLowerCase searchValue;
          st = st\<lparr>items :=
                 map (\<lambda>item.
                        if str_includes (toLowerCase (primaryText item)) searchLower \<or>
                           str_includes (toLowerCase (secondaryText item)) searchLower
                        then item\<lparr>hidden := False\<rparr>
                        else item\<lparr>hidden := True\<rparr>)
                     (items st)\<rparr>
      in if trim searchValue \<noteq> []
         then st\<lparr>sectionsExpanded := map (\<lambda>_. True) (sectionsExpanded st)\<rparr>
         else st)"

text \<open>\<^verbatim>\<open>$('.nexchat-option-item:visible')\<close> and \<^verbatim>\<open>$('.nexchat-option-item.focused')\<close>,
  as positions in the item list. An item is laid out unless the panel around it is
  hidden or \<^verbatim>\<open>hide()\<close> was called on it.\<close>

definition visibleOptions :: "option_list \<Rightarrow> nat list" where
  "visibleOptions st =
     (if widgetHidden st then []
      else filter (\<lambda>i. \<not> hidden (items st ! i)) [0..<length (items st)])"

definition focusedOptions :: "option_list \<Rightarrow> nat list" where
  "focusedOptions st = filter (\<lambda>i. focused (items st ! i)) [0..<length (items st)]"

text \<open>\<^verbatim>\<open>collection.index(element)\<close>: the position of the element, or -1.\<close>

fun indexOf :: "nat list \<Rightarrow> nat \<Rightarrow> int" where
  "indexOf [] x = - 1"
| "indexOf (y # ys) x =
     (if x = y then 0 else (let r = indexOf ys x in if r < 0 then - 1 else r + 1))"

definition removeFocus :: "option_item list \<Rightarrow> option_item list" where
  "removeFocus its = map (\<lambda>item. item\<lparr>focused := False\<rparr>) its"

definition addFocus :: "nat \<Rightarrow> option_item list \<Rightarrow> option_item list" where
  "addFocus i its = its[i := (its ! i)\<lparr>focused := True\<rparr>]"

text \<open>What a key press causes outside the item list: whether the default action was
  prevented, the item scrolled into view, and the items whose click handler was
  triggered.\<close>

record key_effects =
  defaultPrevented :: bool
  scrolledIntoView :: "nat option"
  clicked :: "nat list"

definition noEffects :: key_effects where
  "noEffects = \<lparr>defaultPrevented = False, scrolledIntoView = None, clicked = []\<rparr>"

text \<open>The \<^verbatim>\<open>keydown.nexchat-nav\<close> listener that \<^verbatim>\<open>addKeyboardNavigation\<close> puts on the
  document; the key is the event's \<^verbatim>\<open>key\<close> string. The remainder is taken of a number
  that is not negative, where \<^verbatim>\<open>%\<close> and \<open>mod\<close> agree.\<close>

definition keydown :: "string \<Rightarrow> option_list \<Rightarrow> option_list \<times> key_effects" where
  \<open>keydown key st =
     (if \<not> isOpen st then (st, noEffects)
      else
        let visible = visibleOptions st in
        if length visible = 0 then (st, noEffects)
        else if key = ''ArrowDown'' \<or> key = ''ArrowUp'' then
          let currentFocus = focusedOptions st;
              currentIndex =
                (if currentFocus \<noteq> [] then indexOf visible (hd currentFocus) else - 1);
              unfocused = removeFocus (items st);
              currentIndex =
                (if key = ''ArrowDown'' then (currentIndex + 1) mod int (length visible)
                 else if currentIndex \<le> 0 then int (length visible) - 1
                 else currentIndex - 1);
              newFocused = visible ! nat currentIndex
          in (st\<lparr>items := addFocus newFocused unfocused\<rparr>,
              \<lparr>defaultPrevented = True, scrolledIntoView = Some newFocused, clicked = []\<rparr>)
        else if key = ''Enter'' then
          (st, \<lparr>defaultPrevented = True, scrolledIntoView = None,
                clicked = focusedOptions st\<rparr>)
        else if key = ''Escape'' then (st\<lparr>items := removeFocus (items st)\<rparr>, noEffects)
        else (st, noEffects))\<close>

text \<open>A key pressed several times.\<close>

fun presses :: "nat \<Rightarrow> string \<Rightarrow> option_list \<Rightarrow> option_list" where
  "presses 0 key st = st"
| "presses (Suc n) key st = presses n key (fst (keydown key st))"


section \<open>The page: \<^verbatim>\<open>initializeNexchat\<close>, the constructor, \<^verbatim>\<open>destroy\<close>\<close>

text \<open>
  The part of the page the life cycle reads and writes: the session user of the host
  framework (absent when there is no session or no user), the global handle
  \<^verbatim>\<open>window.nexchat\<close>, the numbers of \<^verbatim>\<open>.nexchat-toggle\<close> and \<^verbatim>\<open>.nexchat-widget\<close>
  elements in the document, and the number of \<^verbatim>\<open>keydown.nexchat-nav\<close> listeners on it.
\<close>

record widget_instance =
  instanceIsOpen :: bool
  instanceIsTyping :: bool

record page =
  sessionUser :: "string option"
  nexchat :: "widget_instance option"
  toggleNodes :: nat
  widgetNodes :: nat
  keydownNavListeners :: nat

definition loggedIn :: "page \<Rightarrow> bool" where
  \<open>loggedIn p =
     (case sessionUser p of
        None \<Rightarrow> False
      | Some user \<Rightarrow> user \<noteq> [] \<and> user \<noteq> ''Guest'')\<close>

text \<open>\<^verbatim>\<open>cleanup()\<close> runs inside the constructor, where \<^verbatim>\<open>this\<close> is the object being
  built: a handle that is set is another object and is cleared.\<close>

definition cleanup :: "page \<Rightarrow> page" where
  "cleanup p = p\<lparr>toggleNodes := 0, widgetNodes := 0, nexchat := None\<rparr>"

definition createToggleButton :: "page \<Rightarrow> page" where
  "createToggleButton p = p\<lparr>toggleNodes := Suc (toggleNodes p)\<rparr>"

definition createChatWidget :: "page \<Rightarrow> page" where
  "createChatWidget p = p\<lparr>widgetNodes := Suc (widgetNodes p)\<rparr>"

definition init :: "page \<Rightarrow> page" where
  "init p = createChatWidget (createToggleButton p)"

definition NexchatWidget :: "page \<Rightarrow> page \<times> widget_instance" where
  "NexchatWidget p =
     (init (cleanup p), \<lparr>instanceIsOpen = False, instanceIsTyping = False\<rparr>)"

definition initializeNexchat :: "page \<Rightarrow> page" where
  "initializeNexchat p =
     (if loggedIn p then
        if nexchat p = None \<and> widgetNodes p + toggleNodes p = 0 then
          (case NexchatWidget p of (p', this) \<Rightarrow> p'\<lparr>nexchat := Some this\<rparr>)
        else p
      else p)"

text \<open>\<^verbatim>\<open>addKeyboardNavigation\<close> takes the listeners of its name off the document and puts
  one on.\<close>

definition addKeyboardNavigation :: "page \<Rightarrow> page" where
  "addKeyboardNavigation p = p\<lparr>keydownNavListeners := Suc 0\<rparr>"

definition destroy :: "page \<Rightarrow> page" where
  "destroy p =
     p\<lparr>keydownNavListeners := 0, toggleNodes := 0, widgetNodes := 0, nexchat := None\<rparr>"


section \<open>Invariants and sample states\<close>

text \<open>While a request is outstanding the widget is typing, and there is one request at
  most.\<close>

definition one_in_flight :: "chat \<Rightarrow> bool" where
  "one_in_flight st = (outstanding st = (if isTyping st then 1 else 0))"

text \<open>The class \<^verbatim>\<open>hidden\<close> of the panel follows \<^verbatim>\<open>this.isOpen\<close>: the constructor
  clears the flag and the markup of the panel carries the class, and \<^verbatim>\<open>toggleWidget\<close>
  changes both together.\<close>

definition panel_in_step :: "option_list \<Rightarrow> bool" where
  "panel_in_step st = (widgetHidden st = (\<not> isOpen st))"

text \<open>An open panel with four option items, the second of them hidden, and two collapsed
  sections.\<close>

definition demo :: option_list where
  \<open>demo =
     \<lparr>isOpen = True, widgetHidden = False, toggleHidden = True,
      items =
        [\<lparr>primaryText = ''Apple'', secondaryText = ''Fruit'', hidden = False, focused = False\<rparr>,
         \<lparr>primaryText = ''Bolt'', secondaryText = ''Hardware'', hidden = True, focused = False\<rparr>,
         \<lparr>primaryText = ''Cherry'', secondaryText = ''Fruit'', hidden = False, focused = False\<rparr>,
         \<lparr>primaryText = ''Drill'', secondaryText = ''Hardware'', hidden = False, focused = False\<rparr>],
      sectionsExpanded = [False, False]\<rparr>\<close>

text \<open>A page of a logged-in user with the widget mounted and open and the keyboard
  listener bound.\<close>

definition demoPage :: page where
  \<open>demoPage =
     \<lparr>sessionUser = Some ''Administrator'',
      nexchat = Some \<lparr>instanceIsOpen = True, instanceIsTyping = False\<rparr>,
      toggleNodes = 1, widgetNodes = 1, keydownNavListeners = 1\<rparr>\<close>


section \<open>Properties of the renderer\<close>

lemma str_includes_sublist: "str_includes s needle = sublist needle s"
  by (induction s) (auto simp: sublist_Cons_right)

lemma str_includes_iff:
  "str_includes s needle \<longleftrightarrow> (\<exists>before after. s = before @ needle @ after)"
  by (simp add: str_includes_sublist sublist_def)

lemma str_includes_shorter: "str_includes s (needle @ rest) \<Longrightarrow> str_includes s needle"
  unfolding str_includes_iff by (metis append.assoc)

text \<open>The two longer container markers are tested after a marker they begin with.\<close>

lemma isHTMLResponse_iff: \<open>isHTMLResponse s = str_includes s ''<div class="nexchat-''\<close>
proof -
  have a: \<open>str_includes s ''<div class="nexchat-options-container">'' \<Longrightarrow>
           str_includes s ''<div class="nexchat-''\<close>
    using str_includes_shorter [of s \<open>''<div class="nexchat-''\<close> \<open>''options-container">''\<close>]
    by simp
  have b: \<open>str_includes s ''<div class="nexchat-field-container">'' \<Longrightarrow>
           str_includes s ''<div class="nexchat-''\<close>
    using str_includes_shorter [of s \<open>''<div class="nexchat-''\<close> \<open>''field-container">''\<close>]
    by simp
  show ?thesis unfolding isHTMLResponse_def using a b by blast
qed

lemma escapeChar_no_angle:
  \<open>CHR ''<'' \<notin> set (escapeChar c) \<and> CHR ''>'' \<notin> set (escapeChar c)\<close>
  by (simp add: escapeChar_def)

lemma escapeHtml_no_angle:
  \<open>CHR ''<'' \<notin> set (escapeHtml s) \<and> CHR ''>'' \<notin> set (escapeHtml s)\<close>
  by (induction s) (simp_all add: escapeHtml_def escapeChar_no_angle)

lemma renderKind_content:
  \<open>messageContent s sender =
     (case renderKind s sender of
        roleSelection \<Rightarrow> formatRoleSelectionMessage s
      | rawHtml \<Rightarrow> s
      | plain \<Rightarrow> ''<p>'' @ escapeHtml s @ ''</p>'')\<close>
  by (simp add: renderKind_def messageContent_def)

text \<open>The classes and the handler set-ups of the new element follow the two tests alone,
  whoever the sender is and whichever branch builds the content.\<close>

lemma addMessage_classes:
  "roleSelectionClass (last (messages (addMessage s sender animate st))) = isRoleSelection s \<and>
   htmlResponseClass (last (messages (addMessage s sender animate st))) = isHTMLResponse s \<and>
   content (last (messages (addMessage s sender animate st))) = messageContent s sender"
  by (simp add: addMessage_def)

text \<open>
  Claim C1. A text rendered through the plain path (the sender is \<^verbatim>\<open>'user'\<close>, or the
  sender is \<^verbatim>\<open>'bot'\<close> and the text passes neither the role-selection test nor the
  container-marker test) becomes the paragraph \<^verbatim>\<open><p>...</p>\<close> around the text in which
  every character is replaced by \<^const>\<open>escapeChar\<close> of it: \<^verbatim>\<open>&\<close>, \<^verbatim>\<open><\<close> and
  \<^verbatim>\<open>>\<close> (and the no-break space) by their entities, every other character by itself.
  The escaped text has no \<^verbatim>\<open><\<close> and no \<^verbatim>\<open>>\<close> left, so no tag of the input
  survives.
\<close>

theorem plain_path_escapes:
  \<open>sender = ''user'' \<or> (sender = ''bot'' \<and> \<not> isRoleSelection s \<and> \<not> isHTMLResponse s) \<Longrightarrow>
   messageContent s sender = ''<p>'' @ concat (map escapeChar s) @ ''</p>'' \<and>
   CHR ''<'' \<notin> set (concat (map escapeChar s)) \<and>
   CHR ''>'' \<notin> set (concat (map escapeChar s))\<close>
  using escapeHtml_no_angle [of s] by (auto simp: messageContent_def escapeHtml_def)

theorem plain_path_escapes_witness:
  \<open>messageContent ''<script>alert(1)</script> & more'' ''user'' =
     ''<p>&lt;script&gt;alert(1)&lt;/script&gt; &amp; more</p>'' \<and>
   messageContent ''a <b>bold</b> word'' ''bot'' = ''<p>a &lt;b&gt;bold&lt;/b&gt; word</p>''\<close>
  using plain_path_escapes [of \<open>''user''\<close> \<open>''<script>alert(1)</script> & more''\<close>]
    plain_path_escapes [of \<open>''bot''\<close> \<open>''a <b>bold</b> word''\<close>]
  by (simp add: escapeChar_def isRoleSelection_def isHTMLResponse_def)

text \<open>
  Claim C2. For a bot response the classification is ordered and the first match wins.
  The text is rendered as role selection exactly when it contains
  \<^verbatim>\<open>Select Role(s) for\<close> and a backtick, whatever container markers it also contains;
  as raw HTML exactly when it fails that test and contains one of the container markers;
  and as plain text exactly when it fails both tests. The content of the message follows
  the classification.
\<close>

theorem render_classification_ordered:
  \<open>(renderKind s ''bot'' = roleSelection \<longleftrightarrow>
       str_includes s ''Select Role(s) for'' \<and> str_includes s [CHR 0x60]) \<and>
   (renderKind s ''bot'' = rawHtml \<longleftrightarrow>
       \<not> (str_includes s ''Select Role(s) for'' \<and> str_includes s [CHR 0x60]) \<and>
       (str_includes s ''<div class="nexchat-'' \<or>
        str_includes s ''<div class="nexchat-options-container">'' \<or>
        str_includes s ''<div class="nexchat-field-container">'')) \<and>
   (renderKind s ''bot'' = plain \<longleftrightarrow>
       \<not> (str_includes s ''Select Role(s) for'' \<and> str_includes s [CHR 0x60]) \<and>
       \<not> (str_includes s ''<div class="nexchat-'' \<or>
          str_includes s ''<div class="nexchat-options-container">'' \<or>
          str_includes s ''<div class="nexchat-field-container">'')) \<and>
   messageContent s ''bot'' =
     (case renderKind s ''bot'' of
        roleSelection \<Rightarrow> formatRoleSelectionMessage s
      | rawHtml \<Rightarrow> s
      | plain \<Rightarrow> ''<p>'' @ escapeHtml s @ ''</p>'')\<close>
  by (simp add: renderKind_def messageContent_def isRoleSelection_def isHTMLResponse_def)

text \<open>A response with the role-selection markers inside an option container is a role
  selection; without the backtick it is raw HTML; without any marker it is plain.\<close>

theorem render_classification_ordered_witness:
  \<open>renderKind (''<div class="nexchat-options-container">Select Role(s) for Ann: '' @
               [CHR 0x60] @ ''1'' @ [CHR 0x60] @ '' **Sales User**</div>'') ''bot'' = roleSelection \<and>
   renderKind ''<div class="nexchat-options-container">Select Role(s) for Ann</div>'' ''bot'' = rawHtml \<and>
   renderKind ''Select Role(s) for Ann'' ''bot'' = plain\<close>
  using render_classification_ordered
          [of \<open>''<div class="nexchat-options-container">Select Role(s) for Ann: '' @
               [CHR 0x60] @ ''1'' @ [CHR 0x60] @ '' **Sales User**</div>''\<close>]
    render_classification_ordered
          [of \<open>''<div class="nexchat-options-container">Select Role(s) for Ann</div>''\<close>]
    render_classification_ordered [of \<open>''Select Role(s) for Ann''\<close>]
  by simp

text \<open>
  Claim C9. A message whose sender is \<^verbatim>\<open>'user'\<close> always takes the escaping plain path,
  whatever markers its text contains; a message that takes the role-selection or the
  raw-HTML branch, or whose content is anything but the escaped paragraph, has the sender
  \<^verbatim>\<open>'bot'\<close>.
\<close>

theorem user_always_plain:
  \<open>renderKind s ''user'' = plain \<and>
   messageContent s ''user'' = ''<p>'' @ escapeHtml s @ ''</p>'' \<and>
   (renderKind s sender \<noteq> plain \<longrightarrow> sender = ''bot'') \<and>
   (messageContent s sender \<noteq> ''<p>'' @ escapeHtml s @ ''</p>'' \<longrightarrow> sender = ''bot'')\<close>
  by (simp add: renderKind_def messageContent_def)

theorem user_always_plain_witness:
  \<open>renderKind (''Select Role(s) for <div class="nexchat-x">'' @ [CHR 0x60]) ''bot'' \<noteq> plain \<and>
   renderKind (''Select Role(s) for <div class="nexchat-x">'' @ [CHR 0x60]) ''user'' = plain \<and>
   messageContent (''Select Role(s) for <div class="nexchat-x">'' @ [CHR 0x60]) ''user'' =
     ''<p>Select Role(s) for &lt;div class="nexchat-x"&gt;'' @ [CHR 0x60] @ ''</p>''\<close>
  using user_always_plain
          [of \<open>''Select Role(s) for <div class="nexchat-x">'' @ [CHR 0x60]\<close> \<open>''bot''\<close>]
  by (simp add: renderKind_def isRoleSelection_def escapeHtml_def escapeChar_def)


section \<open>Properties of a submission\<close>

lemma troubleConnecting_flags:
  "\<not> isRoleSelection troubleConnectingText \<and> \<not> isHTMLResponse troubleConnectingText"
  by (simp add: isRoleSelection_def isHTMLResponse_def troubleConnectingText_def)

lemma troubleConnecting_escaped: "escapeHtml troubleConnectingText = troubleConnectingText"
  by (simp add: escapeHtml_def escapeChar_def troubleConnectingText_def)

lemma errorProcessing_flags:
  "\<not> isRoleSelection errorProcessingText \<and> \<not> isHTMLResponse errorProcessingText"
  by (simp add: isRoleSelection_def isHTMLResponse_def errorProcessingText_def)

lemma errorProcessing_escaped: "escapeHtml errorProcessingText = errorProcessingText"
  by (simp add: escapeHtml_def escapeChar_def errorProcessingText_def)

lemma handleUserInput_ignored:
  "isTyping st \<or> trim (inputVal st) = [] \<Longrightarrow> handleUserInput st = st"
  by (auto simp: handleUserInput_def Let_def)

lemma addMessage_fields [simp]:
  "isTyping (addMessage t s a st) = isTyping st"
  "outstanding (addMessage t s a st) = outstanding st"
  "calls (addMessage t s a st) = calls st"
  "inputVal (addMessage t s a st) = inputVal st"
  "inputDisabled (addMessage t s a st) = inputDisabled st"
  "sendDisabled (addMessage t s a st) = sendDisabled st"
  by (simp_all add: addMessage_def)

lemma settled_fields:
  "\<not> isTyping (settled outcome st)"
  "outstanding (settled outcome st) = outstanding st"
  "calls (settled outcome st) = calls st"
  "\<not> inputDisabled (settled outcome st)"
  "\<not> sendDisabled (settled outcome st)"
  by (simp_all add: settled_def finallyHandler_def thenHandler_def catchHandler_def
      hideTyping_def Let_def split: promise_outcome.splits option.splits)

lemma step_one_in_flight: "one_in_flight st \<Longrightarrow> one_in_flight (step e st)"
proof (cases e)
  case (SetInput v)
  assume "one_in_flight st"
  then show ?thesis using SetInput by (simp add: one_in_flight_def)
next
  case Submit
  assume "one_in_flight st"
  then show ?thesis using Submit
    by (simp add: one_in_flight_def handleUserInput_def Let_def sendToBackend_def
        showTyping_def)
next
  case (Reply r)
  assume "one_in_flight st"
  then show ?thesis using Reply
    by (simp add: one_in_flight_def reply_def settled_fields split: if_splits)
qed

lemma run_one_in_flight: "one_in_flight st \<Longrightarrow> one_in_flight (run evs st)"
  by (induction evs arbitrary: st) (simp_all add: step_one_in_flight)

lemma newChat_one_in_flight: "one_in_flight newChat"
  by (simp add: one_in_flight_def newChat_def)

text \<open>
  Claim C3. In a state where \<^verbatim>\<open>isTyping\<close> is true, and in a state where the trimmed
  input is empty, \<^verbatim>\<open>handleUserInput\<close> changes nothing: no call is handed to the
  transport and no message is appended. Hence, whatever is typed, submitted and answered,
  in whatever order, at most one request is outstanding after any run of events from the
  fresh widget.
\<close>

theorem submit_ignored_while_typing:
  "(isTyping st \<or> trim (inputVal st) = [] \<longrightarrow>
      handleUserInput st = st \<and>
      calls (handleUserInput st) = calls st \<and>
      messages (handleUserInput st) = messages st) \<and>
   outstanding (run evs newChat) \<le> 1"
  using run_one_in_flight [OF newChat_one_in_flight, of evs]
  by (auto simp: handleUserInput_ignored one_in_flight_def split: if_splits)

theorem submit_ignored_while_typing_witness:
  \<open>handleUserInput (newChat\<lparr>isTyping := True, inputVal := ''hello''\<rparr>) =
     newChat\<lparr>isTyping := True, inputVal := ''hello''\<rparr> \<and>
   handleUserInput (newChat\<lparr>inputVal := ''   ''\<rparr>) = newChat\<lparr>inputVal := ''   ''\<rparr> \<and>
   calls (run [SetInput ''hi'', Submit, SetInput ''again'', Submit] newChat) = [''hi''] \<and>
   outstanding (run [SetInput ''hi'', Submit, SetInput ''again'', Submit] newChat) \<le> 1\<close>
proof -
  have typing: \<open>isTyping (newChat\<lparr>isTyping := True, inputVal := ''hello''\<rparr>)\<close>
    by simp
  have blank: \<open>trim (inputVal (newChat\<lparr>inputVal := ''   ''\<rparr>)) = []\<close>
    by code_simp
  have sent: \<open>calls (run [SetInput ''hi'', Submit, SetInput ''again'', Submit] newChat) = [''hi'']\<close>
    by code_simp
  show ?thesis
    using submit_ignored_while_typing
            [of \<open>newChat\<lparr>isTyping := True, inputVal := ''hello''\<rparr>\<close>
                \<open>[SetInput ''hi'', Submit, SetInput ''again'', Submit]\<close>]
      submit_ignored_while_typing [of \<open>newChat\<lparr>inputVal := ''   ''\<rparr>\<close> \<open>[]\<close>]
      typing blank sent
    by simp
qed

lemma messages_catchHandler:
  \<open>messages (catchHandler err st) =
     messages st @
       [\<lparr>messageClass = ''bot'', roleSelectionClass = False, htmlResponseClass = False,
         startsTransparent = True, content = ''<p>'' @ troubleConnectingText @ ''</p>''\<rparr>]\<close>
  using troubleConnecting_flags
  by (simp add: catchHandler_def addMessage_def hideTyping_def messageContent_def
      troubleConnecting_escaped)

lemma messages_thenHandler_missing:
  \<open>response r = None \<or> response r = Some [] \<Longrightarrow>
   messages (thenHandler r st) =
     messages st @
       [\<lparr>messageClass = ''bot'', roleSelectionClass = False, htmlResponseClass = False,
         startsTransparent = True, content = ''<p>'' @ errorProcessingText @ ''</p>''\<rparr>]\<close>
  using errorProcessing_flags
  by (auto simp: thenHandler_def addMessage_def hideTyping_def messageContent_def
      errorProcessing_escaped)

lemma messages_finallyHandler: "messages (finallyHandler st) = messages st"
  by (simp add: finallyHandler_def)

lemma calls_handleUserInput:
  "trim (inputVal st) \<noteq> [] \<Longrightarrow> \<not> isTyping st \<Longrightarrow>
   calls (handleUserInput st) = calls st @ [trim (inputVal st)]"
  by (simp add: handleUserInput_def Let_def sendToBackend_def showTyping_def)

lemma calls_reply: "calls (reply r st) = calls st"
  by (simp add: reply_def settled_fields)

lemma handleUserInput_accepted:
  assumes "trim (inputVal st) \<noteq> []" "\<not> isTyping st"
  shows "outstanding (handleUserInput st) = Suc (outstanding st)"
    and "inputDisabled (handleUserInput st)" and "sendDisabled (handleUserInput st)"
    and "isTyping (handleUserInput st)"
  using assms by (simp_all add: handleUserInput_def Let_def sendToBackend_def showTyping_def)

lemma reply_outstanding:
  "outstanding st \<noteq> 0 \<Longrightarrow>
   reply r st = settled (settle r) (st\<lparr>outstanding := outstanding st - 1\<rparr>)"
  by (simp add: reply_def)

lemma messages_settled_rejected:
  \<open>messages (settled (rejected err) st) =
      messages st @
        [\<lparr>messageClass = ''bot'', roleSelectionClass = False, htmlResponseClass = False,
          startsTransparent = True, content = ''<p>'' @ troubleConnectingText @ ''</p>''\<rparr>]\<close>
  by (simp add: settled_def messages_finallyHandler messages_catchHandler)

lemma messages_settled_missing:
  \<open>response r = None \<or> response r = Some [] \<Longrightarrow>
    messages (settled (resolved r) st) =
      messages st @
        [\<lparr>messageClass = ''bot'', roleSelectionClass = False, htmlResponseClass = False,
          startsTransparent = True, content = ''<p>'' @ errorProcessingText @ ''</p>''\<rparr>]\<close>
  by (simp add: settled_def messages_finallyHandler messages_thenHandler_missing)

text \<open>
  What holds of every submission that is accepted (the trimmed input is not empty and the
  widget is not typing): when the promise is rejected the fixed apologetic connection
  message is appended, and when it is resolved with a payload whose \<^verbatim>\<open>response\<close> is
  missing or empty the fixed ``encountered an error'' message is appended; the input and
  the send button are disabled by the submission and enabled again by any answer. A
  failure body that provides a \<^verbatim>\<open>message\<close> rejects the promise with it, and a failure
  without a JSON body rejects it with \<^verbatim>\<open>Server error\<close>. The submission hands exactly
  one call to the transport, with the trimmed input, and no answer adds another.
\<close>

theorem submission_outcomes:
  assumes "trim (inputVal st) \<noteq> []" and "\<not> isTyping st"
  shows
  \<open>(settle answer = rejected err \<longrightarrow>
      messages (reply answer (handleUserInput st)) =
        messages (handleUserInput st) @
          [\<lparr>messageClass = ''bot'', roleSelectionClass = False, htmlResponseClass = False,
            startsTransparent = True, content = ''<p>'' @ troubleConnectingText @ ''</p>''\<rparr>]) \<and>
   (response r = None \<or> response r = Some [] \<longrightarrow>
      messages (reply (callback (Some r)) (handleUserInput st)) =
        messages (handleUserInput st) @
          [\<lparr>messageClass = ''bot'', roleSelectionClass = False, htmlResponseClass = False,
            startsTransparent = True, content = ''<p>'' @ errorProcessingText @ ''</p>''\<rparr>]) \<and>
   inputDisabled (handleUserInput st) \<and> sendDisabled (handleUserInput st) \<and>
   \<not> inputDisabled (reply answer (handleUserInput st)) \<and>
   \<not> sendDisabled (reply answer (handleUserInput st)) \<and>
   settle (error (Some \<lparr>message = Some m\<rparr>)) = rejected m \<and>
   settle (error None) = rejected ''Server error'' \<and>
   calls (handleUserInput st) = calls st @ [trim (inputVal st)] \<and>
   calls (reply answer (handleUserInput st)) = calls st @ [trim (inputVal st)]\<close>
proof -
  let ?sent = "handleUserInput st"
  have flight: "outstanding ?sent \<noteq> 0"
    using handleUserInput_accepted(1) [OF assms] by simp
  have failure: \<open>settle answer = rejected err \<longrightarrow>
      messages (reply answer ?sent) =
        messages ?sent @
          [\<lparr>messageClass = ''bot'', roleSelectionClass = False, htmlResponseClass = False,
            startsTransparent = True, content = ''<p>'' @ troubleConnectingText @ ''</p>''\<rparr>]\<close>
    by (simp add: reply_outstanding [OF flight] messages_settled_rejected)
  have missing: \<open>response r = None \<or> response r = Some [] \<longrightarrow>
      messages (reply (callback (Some r)) ?sent) =
        messages ?sent @
          [\<lparr>messageClass = ''bot'', roleSelectionClass = False, htmlResponseClass = False,
            startsTransparent = True, content = ''<p>'' @ errorProcessingText @ ''</p>''\<rparr>]\<close>
    by (simp add: reply_outstanding [OF flight] messages_settled_missing)
  have disabled: "inputDisabled ?sent \<and> sendDisabled ?sent"
    using handleUserInput_accepted(2,3) [OF assms] by simp
  have enabled: "\<not> inputDisabled (reply answer ?sent) \<and> \<not> sendDisabled (reply answer ?sent)"
    by (simp add: reply_outstanding [OF flight] settled_fields)
  have rejects: \<open>settle (error (Some \<lparr>message = Some m\<rparr>)) = rejected m \<and>
      settle (error None) = rejected ''Server error''\<close>
    by simp
  have once: "calls ?sent = calls st @ [trim (inputVal st)] \<and>
      calls (reply answer ?sent) = calls st @ [trim (inputVal st)]"
    using assms by (simp add: calls_handleUserInput calls_reply)
  show ?thesis
    using failure missing disabled enabled rejects once by blast
qed

theorem submission_outcomes_witness:
  \<open>map content (messages (reply (error None)
       (handleUserInput (newChat\<lparr>inputVal := '' show orders ''\<rparr>)))) =
     [''<p>show orders</p>'', ''<p>'' @ troubleConnectingText @ ''</p>''] \<and>
   map content (messages (reply (callback (Some \<lparr>response = None\<rparr>))
       (handleUserInput (newChat\<lparr>inputVal := '' show orders ''\<rparr>)))) =
     [''<p>show orders</p>'', ''<p>'' @ errorProcessingText @ ''</p>''] \<and>
   calls (reply (error None) (handleUserInput (newChat\<lparr>inputVal := '' show orders ''\<rparr>))) =
     [''show orders'']\<close>
proof -
  let ?st = \<open>newChat\<lparr>inputVal := '' show orders ''\<rparr>\<close>
  have typed: \<open>trim (inputVal ?st) = ''show orders''\<close> by code_simp
  have idle: "\<not> isTyping ?st" by (simp add: newChat_def)
  have sent: \<open>map content (messages (handleUserInput ?st)) = [''<p>show orders</p>'']\<close>
    by code_simp
  have none: "calls ?st = []" by (simp add: newChat_def)
  show ?thesis
    using submission_outcomes
            [of ?st \<open>error None\<close> \<open>''Server error''\<close> \<open>\<lparr>response = None\<rparr>\<close> \<open>''Denied''\<close>]
      typed idle sent none
    by simp
qed


text \<open>
  Claim C4, at a concrete input. The claim asks for the default text whenever the failure
  body provides no message. The error callback of \<^verbatim>\<open>sendToBackend\<close> tests
  \<^verbatim>\<open>r.responseJSON\<close> where it means the \<^verbatim>\<open>message\<close> field of it: a failure whose
  JSON body carries no \<^verbatim>\<open>message\<close> rejects the promise with
  \<^verbatim>\<open>new Error(undefined)\<close>, whose message is empty, not with \<^verbatim>\<open>Server error\<close>.
  The two paths beside it always supply a text: a failure without a body gives the
  default, and a success callback without \<^verbatim>\<open>r.message\<close> gives
  \<^verbatim>\<open>No response from server\<close>.
\<close>

theorem rejection_without_message_field:
  \<open>settle (error (Some \<lparr>message = None\<rparr>)) = rejected [] \<and>
   settle (error (Some \<lparr>message = None\<rparr>)) \<noteq> rejected ''Server error'' \<and>
   settle (error None) = rejected ''Server error'' \<and>
   settle (callback None) = rejected ''No response from server''\<close>
  by simp

section \<open>Properties of the role buttons\<close>

text \<open>One call of \<^verbatim>\<open>selectRole\<close> does what is asked of a click: an empty field takes
  the number, a comma list or a bare number gets the number appended after a comma, any
  other text is replaced; and nothing is submitted.\<close>

lemma selectRole_inputVal:
  \<open>inputVal (selectRole n st) =
     (if trim (inputVal st) = [] then n
      else if str_includes (trim (inputVal st)) '','' \<or> allDigits (trim (inputVal st))
        then trim (inputVal st) @ '','' @ n
      else n)\<close>
  by (simp add: selectRole_def Let_def)

lemma selectRole_no_submit:
  "calls (selectRole n st) = calls st \<and> messages (selectRole n st) = messages st \<and>
   outstanding (selectRole n st) = outstanding st \<and> isTyping (selectRole n st) = isTyping st"
  by (simp add: selectRole_def Let_def)

lemma selectRole_examples:
  \<open>inputVal (selectRole ''3'' (newChat\<lparr>inputVal := []\<rparr>)) = ''3'' \<and>
   inputVal (selectRole ''5'' (newChat\<lparr>inputVal := ''3''\<rparr>)) = ''3,5'' \<and>
   inputVal (selectRole ''2'' (newChat\<lparr>inputVal := ''7''\<rparr>)) = ''7,2'' \<and>
   inputVal (selectRole ''2'' (newChat\<lparr>inputVal := ''hello''\<rparr>)) = ''2''\<close>
  by code_simp

lemma roleButtonClick_no_submit:
  "calls (roleButtonClick n st) = calls st \<and> messages (roleButtonClick n st) = messages st"
  by (simp add: roleButtonClick_def boundClickHandler_def inlineOnclick_def
      selectRole_no_submit)

text \<open>The markup of a rendered role button carries the inline handler, and rendering the
  message asks for the jQuery handlers as well.\<close>

lemma role_button_has_both_handlers:
  \<open>formatRoleSelectionMessage (''Select Role(s) for Ann: '' @ [CHR 0x60] @ ''3'' @ [CHR 0x60] @ '' **Sales User**'') =
     ''<div class="role-selection-content">Select Role(s) for Ann: '' @
     ''<button class="role-button" data-number="3" onclick="window.nexchat.selectRole('3')">3</button>'' @
     '' <strong>Sales User</strong>'' @ actionButtons @ ''</div>'' \<and>
   handlerSetups (addMessage (''Select Role(s) for Ann: '' @ [CHR 0x60] @ ''3'' @ [CHR 0x60] @ '' **Sales User**'')
       ''bot'' True newChat) = [addRoleButtonHandlers]\<close>
  by code_simp

text \<open>
  Claim C6, at a concrete input. With an empty field, one click on the role button 3 runs
  \<^verbatim>\<open>selectRole\<close> twice and leaves \<^verbatim>\<open>3,3\<close> in the field, where the claim says
  \<^verbatim>\<open>3\<close>; with \<^verbatim>\<open>3\<close> in the field a click on the button 5 leaves \<^verbatim>\<open>3,5,5\<close>,
  where the claim says \<^verbatim>\<open>3,5\<close>.
\<close>

theorem role_button_click_selects_twice:
  \<open>inputVal (roleButtonClick ''3'' (newChat\<lparr>inputVal := []\<rparr>)) = ''3,3'' \<and>
   inputVal (roleButtonClick ''5'' (newChat\<lparr>inputVal := ''3''\<rparr>)) = ''3,5,5''\<close>
  by code_simp


section \<open>Properties of the option items\<close>


lemma indexOf_bounds: "- 1 \<le> indexOf xs x \<and> indexOf xs x < int (length xs)"
  by (induction xs) (auto simp: Let_def)

lemma indexOf_nth: "distinct xs \<Longrightarrow> j < length xs \<Longrightarrow> indexOf xs (xs ! j) = int j"
proof (induction xs arbitrary: j)
  case Nil
  then show ?case by simp
next
  case (Cons y ys)
  show ?case
  proof (cases j)
    case 0
    then show ?thesis by simp
  next
    case (Suc k)
    with Cons.prems have k: "k < length ys" and d: "distinct ys" and ne: "ys ! k \<noteq> y"
      by auto
    from Cons.IH [OF d k] Suc ne show ?thesis by (simp add: Let_def)
  qed
qed

lemma filter_eq_upt: "t < n \<Longrightarrow> filter (\<lambda>i. i = t) [0..<n] = [t]"
  by (induction n) auto

lemma nth_after:
  "i < length its \<Longrightarrow> addFocus t (removeFocus its) ! i = (its ! i)\<lparr>focused := (i = t)\<rparr>"
  by (cases "i = t") (simp_all add: addFocus_def removeFocus_def)

lemma focused_after:
  assumes "t < length its"
  shows "filter (\<lambda>i. focused (addFocus t (removeFocus its) ! i)) [0..<length its] = [t]"
proof -
  have "filter (\<lambda>i. focused (addFocus t (removeFocus its) ! i)) [0..<length its] =
        filter (\<lambda>i. i = t) [0..<length its]"
    by (rule filter_cong) (auto simp: nth_after)
  with assms show ?thesis by (simp add: filter_eq_upt)
qed

lemma hidden_after:
  "i < length its \<Longrightarrow> hidden (addFocus t (removeFocus its) ! i) = hidden (its ! i)"
  by (simp add: nth_after)

lemma length_after [simp]: "length (addFocus t (removeFocus its)) = length its"
  by (simp add: addFocus_def removeFocus_def)

lemma visibleOptions_after:
  "visibleOptions (st\<lparr>items := addFocus t (removeFocus (items st))\<rparr>) = visibleOptions st"
proof -
  have "filter (\<lambda>i. \<not> hidden (addFocus t (removeFocus (items st)) ! i)) [0..<length (items st)] =
        filter (\<lambda>i. \<not> hidden (items st ! i)) [0..<length (items st)]"
    by (rule filter_cong) (auto simp: hidden_after)
  then show ?thesis by (simp add: visibleOptions_def)
qed

lemma visibleOptions_distinct: "distinct (visibleOptions st)"
  by (simp add: visibleOptions_def)

lemma visibleOptions_bound: "i \<in> set (visibleOptions st) \<Longrightarrow> i < length (items st)"
  by (auto simp: visibleOptions_def split: if_splits)

lemma focusedOptions_after:
  "t < length (items st) \<Longrightarrow>
   focusedOptions (st\<lparr>items := addFocus t (removeFocus (items st))\<rparr>) = [t]"
  by (simp add: focusedOptions_def focused_after)

text \<open>What an arrow key does when the widget is open and an item is visible: every
  focus is removed and one visible item gets it; the position of that item among the
  visible ones is the index the handler computes.\<close>

lemma arrow_state:
  assumes "isOpen st" "visibleOptions st \<noteq> []" \<open>key = ''ArrowDown'' \<or> key = ''ArrowUp''\<close>
  shows \<open>\<exists>n < length (visibleOptions st).
           fst (keydown key st) = st\<lparr>items := addFocus (visibleOptions st ! n) (removeFocus (items st))\<rparr> \<and>
           snd (keydown key st) = \<lparr>defaultPrevented = True, scrolledIntoView = Some (visibleOptions st ! n), clicked = []\<rparr> \<and>
           int n = (let ci = (if focusedOptions st \<noteq> [] then indexOf (visibleOptions st) (hd (focusedOptions st)) else - 1)
                in if key = ''ArrowDown'' then (ci + 1) mod int (length (visibleOptions st))
                 else if ci \<le> 0 then int (length (visibleOptions st)) - 1 else ci - 1)\<close>
proof -
  let ?vis = "visibleOptions st"
  let ?ci = "if focusedOptions st \<noteq> [] then indexOf ?vis (hd (focusedOptions st)) else - 1"
  let ?ni = \<open>if key = ''ArrowDown'' then (?ci + 1) mod int (length ?vis)
                 else if ?ci \<le> 0 then int (length ?vis) - 1 else ?ci - 1\<close>
  have N: "0 < length ?vis" using assms(2) by simp
  have ci: "- 1 \<le> ?ci \<and> ?ci < int (length ?vis)"
    using indexOf_bounds [of ?vis "hd (focusedOptions st)"] N by auto
  have ni: "0 \<le> ?ni \<and> ?ni < int (length ?vis)"
    using ci N by auto
  have "nat ?ni < length ?vis" using ni by linarith
  moreover have "fst (keydown key st) = st\<lparr>items := addFocus (?vis ! nat ?ni) (removeFocus (items st))\<rparr>"
    using assms by (auto simp: keydown_def Let_def)
  moreover have "snd (keydown key st) = \<lparr>defaultPrevented = True, scrolledIntoView = Some (?vis ! nat ?ni), clicked = []\<rparr>"
    using assms by (auto simp: keydown_def Let_def)
  moreover have "int (nat ?ni) = ?ni" using ni by simp
  ultimately show ?thesis unfolding Let_def by blast
qed

lemma arrow_focus:
  assumes "isOpen st" "visibleOptions st \<noteq> []" \<open>key = ''ArrowDown'' \<or> key = ''ArrowUp''\<close>
  shows \<open>\<exists>n < length (visibleOptions st).
           focusedOptions (fst (keydown key st)) = [visibleOptions st ! n] \<and>
           visibleOptions (fst (keydown key st)) = visibleOptions st \<and>
           isOpen (fst (keydown key st)) \<and>
           int n = (let ci = (if focusedOptions st \<noteq> [] then indexOf (visibleOptions st) (hd (focusedOptions st)) else - 1)
                in if key = ''ArrowDown'' then (ci + 1) mod int (length (visibleOptions st))
                 else if ci \<le> 0 then int (length (visibleOptions st)) - 1 else ci - 1)\<close>
proof -
  from arrow_state [OF assms] obtain n where n: "n < length (visibleOptions st)"
    and st': "fst (keydown key st) = st\<lparr>items := addFocus (visibleOptions st ! n) (removeFocus (items st))\<rparr>"
    and idx: \<open>int n = (let ci = (if focusedOptions st \<noteq> [] then indexOf (visibleOptions st) (hd (focusedOptions st)) else - 1)
                in if key = ''ArrowDown'' then (ci + 1) mod int (length (visibleOptions st))
                 else if ci \<le> 0 then int (length (visibleOptions st)) - 1 else ci - 1)\<close>
    by blast
  have "visibleOptions st ! n < length (items st)"
    using n visibleOptions_bound [of "visibleOptions st ! n" st] by simp
  then have "focusedOptions (fst (keydown key st)) = [visibleOptions st ! n]"
    by (simp add: st' focusedOptions_after)
  moreover have "visibleOptions (fst (keydown key st)) = visibleOptions st"
    by (simp add: st' visibleOptions_after)
  moreover have "isOpen (fst (keydown key st))"
    using assms(1) by (simp add: st')
  ultimately show ?thesis using n idx by blast
qed

lemma down_from_none:
  assumes "isOpen st" "visibleOptions st \<noteq> []" "focusedOptions st = []"
  shows \<open>focusedOptions (fst (keydown ''ArrowDown'' st)) = [visibleOptions st ! 0] \<and>
         visibleOptions (fst (keydown ''ArrowDown'' st)) = visibleOptions st \<and>
         isOpen (fst (keydown ''ArrowDown'' st))\<close>
proof -
  from arrow_focus [OF assms(1,2), of \<open>''ArrowDown''\<close>] assms(3)
  obtain n where \<open>focusedOptions (fst (keydown ''ArrowDown'' st)) = [visibleOptions st ! n]\<close>
    \<open>visibleOptions (fst (keydown ''ArrowDown'' st)) = visibleOptions st\<close>
    \<open>isOpen (fst (keydown ''ArrowDown'' st))\<close> "int n = 0"
    by (auto simp: Let_def)
  then show ?thesis by simp
qed

lemma down_from_item:
  assumes "isOpen st" "visibleOptions st \<noteq> []" "j < length (visibleOptions st)"
    "focusedOptions st = [visibleOptions st ! j]"
  shows \<open>focusedOptions (fst (keydown ''ArrowDown'' st)) =
           [visibleOptions st ! ((j + 1) mod length (visibleOptions st))] \<and>
         visibleOptions (fst (keydown ''ArrowDown'' st)) = visibleOptions st \<and>
         isOpen (fst (keydown ''ArrowDown'' st))\<close>
proof -
  have ci: "indexOf (visibleOptions st) (visibleOptions st ! j) = int j"
    using indexOf_nth [OF visibleOptions_distinct assms(3)] .
  from arrow_focus [OF assms(1,2), of \<open>''ArrowDown''\<close>] assms(4) ci
  obtain n where n: \<open>focusedOptions (fst (keydown ''ArrowDown'' st)) = [visibleOptions st ! n]\<close>
    \<open>visibleOptions (fst (keydown ''ArrowDown'' st)) = visibleOptions st\<close>
    \<open>isOpen (fst (keydown ''ArrowDown'' st))\<close>
    and idx: "int n = (int j + 1) mod int (length (visibleOptions st))"
    by (auto simp: Let_def)
  have "(int j + 1) mod int (length (visibleOptions st)) =
      int ((j + 1) mod length (visibleOptions st))"
    by (simp add: zmod_int add.commute)
  with idx have "n = (j + 1) mod length (visibleOptions st)" by linarith
  with n show ?thesis by simp
qed

lemma up_from_none:
  assumes "isOpen st" "visibleOptions st \<noteq> []" "focusedOptions st = []"
  shows \<open>focusedOptions (fst (keydown ''ArrowUp'' st)) =
           [visibleOptions st ! (length (visibleOptions st) - 1)]\<close>
proof -
  from arrow_focus [OF assms(1,2), of \<open>''ArrowUp''\<close>] assms(3)
  obtain n where n: \<open>focusedOptions (fst (keydown ''ArrowUp'' st)) = [visibleOptions st ! n]\<close>
    and "int n = int (length (visibleOptions st)) - 1"
    by (auto simp: Let_def)
  then have "n = length (visibleOptions st) - 1" by linarith
  with n show ?thesis by simp
qed

lemma up_from_item:
  assumes "isOpen st" "visibleOptions st \<noteq> []" "j < length (visibleOptions st)"
    "focusedOptions st = [visibleOptions st ! j]"
  shows \<open>focusedOptions (fst (keydown ''ArrowUp'' st)) =
           [visibleOptions st ! (if j = 0 then length (visibleOptions st) - 1 else j - 1)]\<close>
proof -
  have ci: "indexOf (visibleOptions st) (visibleOptions st ! j) = int j"
    using indexOf_nth [OF visibleOptions_distinct assms(3)] .
  from arrow_focus [OF assms(1,2), of \<open>''ArrowUp''\<close>] assms(4) ci
  obtain n where n: \<open>focusedOptions (fst (keydown ''ArrowUp'' st)) = [visibleOptions st ! n]\<close>
    and "int n = (if int j \<le> 0 then int (length (visibleOptions st)) - 1 else int j - 1)"
    by (auto simp: Let_def)
  then have "n = (if j = 0 then length (visibleOptions st) - 1 else j - 1)"
    by (auto split: if_splits)
  with n show ?thesis by simp
qed

lemma presses_down_from_item:
  "isOpen st \<Longrightarrow> visibleOptions st \<noteq> [] \<Longrightarrow> j < length (visibleOptions st) \<Longrightarrow>
   focusedOptions st = [visibleOptions st ! j] \<Longrightarrow>
   focusedOptions (presses k ''ArrowDown'' st) =
     [visibleOptions st ! ((j + k) mod length (visibleOptions st))]"
proof (induction k arbitrary: st j)
  case 0
  then show ?case by simp
next
  case (Suc k)
  let ?st = \<open>fst (keydown ''ArrowDown'' st)\<close>
  let ?N = "length (visibleOptions st)"
  from down_from_item [OF Suc.prems]
  have f: "focusedOptions ?st = [visibleOptions st ! ((j + 1) mod ?N)]"
    and v: "visibleOptions ?st = visibleOptions st" and o: "isOpen ?st"
    by simp_all
  have N: "0 < ?N" using Suc.prems(2) by simp
  have "focusedOptions (presses k ''ArrowDown'' ?st) =
          [visibleOptions ?st ! (((j + 1) mod ?N + k) mod length (visibleOptions ?st))]"
    by (rule Suc.IH) (use f v o N Suc.prems in simp_all)
  then show ?case by (simp add: v mod_simps)
qed

lemma presses_down_from_none:
  assumes "isOpen st" "visibleOptions st \<noteq> []" "focusedOptions st = []" "0 < k"
  shows \<open>focusedOptions (presses k ''ArrowDown'' st) =
           [visibleOptions st ! ((k - 1) mod length (visibleOptions st))]\<close>
proof -
  obtain m where k: "k = Suc m" using assms(4) by (cases k) auto
  let ?st = \<open>fst (keydown ''ArrowDown'' st)\<close>
  from down_from_none [OF assms(1-3)]
  have f: "focusedOptions ?st = [visibleOptions st ! 0]"
    and v: "visibleOptions ?st = visibleOptions st" and o: "isOpen ?st"
    by simp_all
  have "focusedOptions (presses m ''ArrowDown'' ?st) =
          [visibleOptions ?st ! ((0 + m) mod length (visibleOptions ?st))]"
    by (rule presses_down_from_item) (use f v o assms in simp_all)
  then show ?thesis by (simp add: k v)
qed

lemma panel_open:
  "panel_in_step st \<Longrightarrow> visibleOptions st \<noteq> [] \<Longrightarrow> isOpen st"
  by (auto simp: panel_in_step_def visibleOptions_def split: if_splits)

lemma hd_visible: "xs \<noteq> [] \<Longrightarrow> xs ! 0 = hd xs"
  by (simp add: hd_conv_nth)

lemma last_visible: "xs \<noteq> [] \<Longrightarrow> xs ! (length xs - 1) = last xs"
  by (simp add: last_conv_nth)

lemma panel_in_step_toggleWidget: "panel_in_step (toggleWidget st)"
  by (simp add: panel_in_step_def toggleWidget_def)

lemma panel_in_step_filterOptions: "panel_in_step (filterOptions q st) = panel_in_step st"
  by (simp add: panel_in_step_def filterOptions_def Let_def)

lemma panel_in_step_keydown: "panel_in_step (fst (keydown key st)) = panel_in_step st"
  by (simp add: panel_in_step_def keydown_def Let_def)

text \<open>
  Claim C7. Let the panel's class follow the open flag and let \<open>N \<ge> 1\<close> option items
  be visible. Arrow Down from no focus focuses the first visible item, and from the last
  visible item it wraps to the first; Arrow Up from the first visible item, or from no
  focus, focuses the last. From the visible item at position \<open>j\<close>, Down moves to
  position \<open>(j + 1) mod N\<close> and Up to \<open>j - 1\<close>, or to \<open>N - 1\<close> when \<open>j = 0\<close>. After
  any arrow key exactly one item is focused, a visible one, and the visible items are the
  same. From no focus, the \<open>k\<close>-th press of Down in a row focuses the visible item at
  position \<open>(k - 1) mod N\<close>: the focus is on the first item at the presses
  \<open>1, N + 1, 2N + 1, \<dots>\<close> and at no other, once in every \<open>N\<close> presses.
\<close>

theorem arrow_keys_cycle:
  assumes "panel_in_step st" and "visibleOptions st \<noteq> []"
  shows
  \<open>(focusedOptions st = [] \<longrightarrow>
      focusedOptions (fst (keydown ''ArrowDown'' st)) = [hd (visibleOptions st)]) \<and>
   (focusedOptions st = [last (visibleOptions st)] \<longrightarrow>
      focusedOptions (fst (keydown ''ArrowDown'' st)) = [hd (visibleOptions st)]) \<and>
   (focusedOptions st = [] \<or> focusedOptions st = [hd (visibleOptions st)] \<longrightarrow>
      focusedOptions (fst (keydown ''ArrowUp'' st)) = [last (visibleOptions st)]) \<and>
   (j < length (visibleOptions st) \<and> focusedOptions st = [visibleOptions st ! j] \<longrightarrow>
      focusedOptions (fst (keydown ''ArrowDown'' st)) =
        [visibleOptions st ! ((j + 1) mod length (visibleOptions st))] \<and>
      focusedOptions (fst (keydown ''ArrowUp'' st)) =
        [visibleOptions st ! (if j = 0 then length (visibleOptions st) - 1 else j - 1)]) \<and>
   (key = ''ArrowDown'' \<or> key = ''ArrowUp'' \<longrightarrow>
      (\<exists>i. i \<in> set (visibleOptions st) \<and> focusedOptions (fst (keydown key st)) = [i]) \<and>
      visibleOptions (fst (keydown key st)) = visibleOptions st) \<and>
   (focusedOptions st = [] \<and> 0 < k \<longrightarrow>
      focusedOptions (presses k ''ArrowDown'' st) =
        [visibleOptions st ! ((k - 1) mod length (visibleOptions st))] \<and>
      (focusedOptions (presses k ''ArrowDown'' st) = [hd (visibleOptions st)] \<longleftrightarrow>
         (k - 1) mod length (visibleOptions st) = 0))\<close>
proof -
  let ?vis = "visibleOptions st"
  let ?N = "length ?vis"
  have "open": "isOpen st" using assms by (rule panel_open)
  have N: "0 < ?N" using assms(2) by simp
  have first: "?vis ! 0 = hd ?vis" using assms(2) by (rule hd_visible)
  have final: "?vis ! (?N - 1) = last ?vis" using assms(2) by (rule last_visible)
  have a: \<open>focusedOptions st = [] \<longrightarrow>
      focusedOptions (fst (keydown ''ArrowDown'' st)) = [hd ?vis]\<close>
    using down_from_none [OF "open" assms(2)] first by simp
  have b: \<open>focusedOptions st = [last ?vis] \<longrightarrow>
      focusedOptions (fst (keydown ''ArrowDown'' st)) = [hd ?vis]\<close>
  proof
    assume "focusedOptions st = [last ?vis]"
    then have "focusedOptions st = [?vis ! (?N - 1)]" using final by simp
    from down_from_item [OF "open" assms(2) _ this] N first
    show \<open>focusedOptions (fst (keydown ''ArrowDown'' st)) = [hd ?vis]\<close> by simp
  qed
  have c: \<open>focusedOptions st = [] \<or> focusedOptions st = [hd ?vis] \<longrightarrow>
      focusedOptions (fst (keydown ''ArrowUp'' st)) = [last ?vis]\<close>
  proof
    assume "focusedOptions st = [] \<or> focusedOptions st = [hd ?vis]"
    then show \<open>focusedOptions (fst (keydown ''ArrowUp'' st)) = [last ?vis]\<close>
    proof
      assume "focusedOptions st = []"
      from up_from_none [OF "open" assms(2) this] final show ?thesis by simp
    next
      assume "focusedOptions st = [hd ?vis]"
      then have "focusedOptions st = [?vis ! 0]" using first by simp
      from up_from_item [OF "open" assms(2) N this] final show ?thesis by simp
    qed
  qed
  have d: \<open>j < ?N \<and> focusedOptions st = [?vis ! j] \<longrightarrow>
      focusedOptions (fst (keydown ''ArrowDown'' st)) = [?vis ! ((j + 1) mod ?N)] \<and>
      focusedOptions (fst (keydown ''ArrowUp'' st)) =
        [?vis ! (if j = 0 then ?N - 1 else j - 1)]\<close>
    using down_from_item [OF "open" assms(2), of j] up_from_item [OF "open" assms(2), of j]
    by blast
  have e: \<open>key = ''ArrowDown'' \<or> key = ''ArrowUp'' \<longrightarrow>
      (\<exists>i. i \<in> set ?vis \<and> focusedOptions (fst (keydown key st)) = [i]) \<and>
      visibleOptions (fst (keydown key st)) = ?vis\<close>
  proof
    assume \<open>key = ''ArrowDown'' \<or> key = ''ArrowUp''\<close>
    from arrow_focus [OF "open" assms(2) this]
    obtain n where "n < ?N" "focusedOptions (fst (keydown key st)) = [?vis ! n]"
      "visibleOptions (fst (keydown key st)) = ?vis"
      by blast
    then show "(\<exists>i. i \<in> set ?vis \<and> focusedOptions (fst (keydown key st)) = [i]) \<and>
      visibleOptions (fst (keydown key st)) = ?vis"
      using nth_mem by blast
  qed
  have f: \<open>focusedOptions st = [] \<and> 0 < k \<longrightarrow>
      focusedOptions (presses k ''ArrowDown'' st) = [?vis ! ((k - 1) mod ?N)] \<and>
      (focusedOptions (presses k ''ArrowDown'' st) = [hd ?vis] \<longleftrightarrow> (k - 1) mod ?N = 0)\<close>
  proof
    assume h: "focusedOptions st = [] \<and> 0 < k"
    then have p: \<open>focusedOptions (presses k ''ArrowDown'' st) = [?vis ! ((k - 1) mod ?N)]\<close>
      using presses_down_from_none [OF "open" assms(2)] by blast
    have lt: "(k - 1) mod ?N < ?N" using N by simp
    have "?vis ! ((k - 1) mod ?N) = ?vis ! 0 \<longleftrightarrow> (k - 1) mod ?N = 0"
      using nth_eq_iff_index_eq [OF visibleOptions_distinct lt N] .
    with p first
    show \<open>focusedOptions (presses k ''ArrowDown'' st) = [?vis ! ((k - 1) mod ?N)] \<and>
      (focusedOptions (presses k ''ArrowDown'' st) = [hd ?vis] \<longleftrightarrow> (k - 1) mod ?N = 0)\<close>
      by simp
  qed
  show ?thesis using a b c d e f by blast
qed

text \<open>On the sample panel the visible items are those at 0, 2 and 3.\<close>

theorem arrow_keys_cycle_witness:
  \<open>focusedOptions (fst (keydown ''ArrowDown'' demo)) = [0] \<and>
   focusedOptions (fst (keydown ''ArrowUp'' demo)) = [3] \<and>
   focusedOptions (presses 3 ''ArrowDown'' demo) = [3] \<and>
   focusedOptions (presses 4 ''ArrowDown'' demo) = [0]\<close>
proof -
  have step: "panel_in_step demo" by (simp add: panel_in_step_def demo_def)
  have vis: "visibleOptions demo = [0, 2, 3]" by code_simp
  have none: "focusedOptions demo = []" by code_simp
  show ?thesis
    using arrow_keys_cycle [of demo 0 \<open>''ArrowDown''\<close> 3] arrow_keys_cycle [of demo 0 \<open>''ArrowDown''\<close> 4]
      step vis none
    by simp
qed

text \<open>
  Claim C10. When the widget is closed, or no option item is visible, the key listener
  returns at once for every key: the page is as before, the default action of the key is
  not prevented, nothing is scrolled and no item is clicked.
\<close>

theorem keydown_noop_when_closed_or_empty:
  "\<not> isOpen st \<or> visibleOptions st = [] \<Longrightarrow> keydown key st = (st, noEffects)"
  by (auto simp: keydown_def Let_def)

theorem keydown_noop_when_closed_or_empty_witness:
  \<open>keydown ''ArrowDown'' (demo\<lparr>isOpen := False, widgetHidden := True\<rparr>) =
     (demo\<lparr>isOpen := False, widgetHidden := True\<rparr>, noEffects) \<and>
   keydown ''Enter'' (filterOptions ''zzz'' demo) = (filterOptions ''zzz'' demo, noEffects)\<close>
proof -
  have closed: "\<not> isOpen (demo\<lparr>isOpen := False, widgetHidden := True\<rparr>)" by simp
  have none: \<open>visibleOptions (filterOptions ''zzz'' demo) = []\<close> by code_simp
  show ?thesis
    using keydown_noop_when_closed_or_empty [of \<open>demo\<lparr>isOpen := False, widgetHidden := True\<rparr>\<close> \<open>''ArrowDown''\<close>]
      keydown_noop_when_closed_or_empty [of \<open>filterOptions ''zzz'' demo\<close> \<open>''Enter''\<close>] closed none
    by simp
qed

lemma str_includes_empty: "str_includes s []"
  by (cases s) simp_all

lemma filterOptions_items:
  "items (filterOptions q st) =
     map (\<lambda>item. item\<lparr>hidden :=
            \<not> (str_includes (toLowerCase (primaryText item)) (toLowerCase q) \<or>
               str_includes (toLowerCase (secondaryText item)) (toLowerCase q))\<rparr>) (items st)"
  by (simp add: filterOptions_def Let_def)

text \<open>
  Claim C8. \<^verbatim>\<open>filterOptions\<close> keeps every item with its texts and shows an item
  exactly when the lowercased query occurs in its lowercased primary or secondary text.
  A query that occurs in no item hides them all. A query that is not blank expands every
  collapsible section, a blank one leaves the sections as they are. The empty query shows
  every item again.
\<close>

theorem filter_options_visibility:
  \<open>length (items (filterOptions q st)) = length (items st) \<and>
   map primaryText (items (filterOptions q st)) = map primaryText (items st) \<and>
   map secondaryText (items (filterOptions q st)) = map secondaryText (items st) \<and>
   (\<forall>i < length (items st).
      \<not> hidden (items (filterOptions q st) ! i) \<longleftrightarrow>
        str_includes (toLowerCase (primaryText (items st ! i))) (toLowerCase q) \<or>
        str_includes (toLowerCase (secondaryText (items st ! i))) (toLowerCase q)) \<and>
   ((\<forall>i < length (items st).
       \<not> str_includes (toLowerCase (primaryText (items st ! i))) (toLowerCase q) \<and>
       \<not> str_includes (toLowerCase (secondaryText (items st ! i))) (toLowerCase q)) \<longrightarrow>
    (\<forall>i < length (items st). hidden (items (filterOptions q st) ! i))) \<and>
   (trim q \<noteq> [] \<longrightarrow>
      sectionsExpanded (filterOptions q st) = replicate (length (sectionsExpanded st)) True) \<and>
   (trim q = [] \<longrightarrow> sectionsExpanded (filterOptions q st) = sectionsExpanded st) \<and>
   (\<forall>i < length (items st). \<not> hidden (items (filterOptions [] st) ! i))\<close>
proof -
  have sec: "trim q \<noteq> [] \<longrightarrow>
      sectionsExpanded (filterOptions q st) = replicate (length (sectionsExpanded st)) True"
    by (simp add: filterOptions_def Let_def map_replicate_const)
  have sec': "trim q = [] \<longrightarrow> sectionsExpanded (filterOptions q st) = sectionsExpanded st"
    by (simp add: filterOptions_def Let_def)
  have clear: "\<forall>i < length (items st). \<not> hidden (items (filterOptions [] st) ! i)"
    by (simp add: filterOptions_items toLowerCase_def str_includes_empty)
  have texts: "map primaryText (items (filterOptions q st)) = map primaryText (items st) \<and>
      map secondaryText (items (filterOptions q st)) = map secondaryText (items st)"
    by (simp add: filterOptions_items comp_def)
  show ?thesis
    using sec sec' clear texts by (simp add: filterOptions_items)
qed

theorem filter_options_visibility_witness:
  \<open>map hidden (items (filterOptions ''FRUIT'' demo)) = [False, True, False, True] \<and>
   sectionsExpanded (filterOptions ''FRUIT'' demo) = [True, True] \<and>
   map hidden (items (filterOptions ''zzz'' demo)) = [True, True, True, True] \<and>
   map hidden (items (filterOptions [] (filterOptions ''zzz'' demo))) = [False, False, False, False]\<close>
proof -
  have a: \<open>map hidden (items (filterOptions ''FRUIT'' demo)) = [False, True, False, True]\<close>
    by code_simp
  have b: \<open>map hidden (items (filterOptions ''zzz'' demo)) = [True, True, True, True]\<close>
    by code_simp
  have c: \<open>map hidden (items (filterOptions [] (filterOptions ''zzz'' demo))) =
      [False, False, False, False]\<close>
    by code_simp
  have d: \<open>trim ''FRUIT'' \<noteq> []\<close> by code_simp
  have e: "length (sectionsExpanded demo) = 2" by (simp add: demo_def)
  show ?thesis
    using filter_options_visibility [of \<open>''FRUIT''\<close> demo] a b c d e
    by (simp add: numeral_2_eq_2)
qed


section \<open>Properties of the life cycle\<close>


text \<open>
  Claim C5. \<^verbatim>\<open>initializeNexchat\<close> changes nothing when \<^verbatim>\<open>window.nexchat\<close> is set or
  when no user other than \<^verbatim>\<open>Guest\<close> is logged in. \<^verbatim>\<open>destroy\<close> leaves no toggle button
  and no panel in the document, clears \<^verbatim>\<open>window.nexchat\<close> and takes the key listener
  off the document. For a logged-in user the next \<^verbatim>\<open>initializeNexchat\<close> then builds a
  fresh instance with one toggle button and one panel, and initialising once more changes
  nothing.
\<close>

theorem lifecycle_singleton:
  "(nexchat p \<noteq> None \<or> \<not> loggedIn p \<longrightarrow> initializeNexchat p = p) \<and>
   toggleNodes (destroy p) = 0 \<and> widgetNodes (destroy p) = 0 \<and>
   nexchat (destroy p) = None \<and> keydownNavListeners (destroy p) = 0 \<and>
   (loggedIn p \<longrightarrow>
      nexchat (initializeNexchat (destroy p)) =
        Some \<lparr>instanceIsOpen = False, instanceIsTyping = False\<rparr> \<and>
      toggleNodes (initializeNexchat (destroy p)) = 1 \<and>
      widgetNodes (initializeNexchat (destroy p)) = 1 \<and>
      initializeNexchat (initializeNexchat (destroy p)) = initializeNexchat (destroy p))"
  by (auto simp: initializeNexchat_def destroy_def NexchatWidget_def init_def cleanup_def
      createToggleButton_def createChatWidget_def loggedIn_def split: option.splits)

theorem lifecycle_singleton_witness:
  \<open>initializeNexchat demoPage = demoPage \<and>
   initializeNexchat (demoPage\<lparr>sessionUser := Some ''Guest'', nexchat := None, toggleNodes := 0, widgetNodes := 0\<rparr>) =
     demoPage\<lparr>sessionUser := Some ''Guest'', nexchat := None, toggleNodes := 0, widgetNodes := 0\<rparr> \<and>
   initializeNexchat (destroy demoPage) =
     demoPage\<lparr>nexchat := Some \<lparr>instanceIsOpen = False, instanceIsTyping = False\<rparr>,
       keydownNavListeners := 0\<rparr>\<close>
proof -
  have a: "nexchat demoPage \<noteq> None" by (simp add: demoPage_def)
  have b: "loggedIn demoPage" by (simp add: demoPage_def loggedIn_def)
  have c: \<open>\<not> loggedIn (demoPage\<lparr>sessionUser := Some ''Guest'', nexchat := None, toggleNodes := 0, widgetNodes := 0\<rparr>)\<close>
    by (simp add: loggedIn_def)
  have d: \<open>initializeNexchat (destroy demoPage) =
     demoPage\<lparr>nexchat := Some \<lparr>instanceIsOpen = False, instanceIsTyping = False\<rparr>,
       keydownNavListeners := 0\<rparr>\<close>
    by (simp add: demoPage_def initializeNexchat_def destroy_def NexchatWidget_def init_def cleanup_def
      createToggleButton_def createChatWidget_def loggedIn_def)
  show ?thesis
    using lifecycle_singleton [of demoPage] lifecycle_singleton [of \<open>demoPage\<lparr>sessionUser := Some ''Guest'', nexchat := None, toggleNodes := 0, widgetNodes := 0\<rparr>\<close>] a b c d
    by simp
qed

end
